theory Spec2Isabelle
  imports Main "HOL-Library.Sublist" "HOL-Library.AList"
begin

section \<open>JavaScript strings\<close>

text \<open>
  A JavaScript string is modelled as a \<^typ>\<open>string\<close>: a list of code units below 256
  (the Latin-1 range of UTF-16).  \<open>code_unit\<close> reads the number of a character.
\<close>

definition code_unit :: "char \<Rightarrow> nat" where
  "code_unit c = of_char c"

text \<open>
  \<^verbatim>\<open>String.prototype.toLowerCase\<close> on one code unit: \<open>A\<close>..\<open>Z\<close> and the Latin-1
  capitals U+00C0..U+00DE (without the multiplication sign U+00D7) move up by 32, which
  is setting bit 5; every other code unit stays.
\<close>

definition toLowerCase_char :: "char \<Rightarrow> char" where
  "toLowerCase_char c = (let n = code_unit c in
     if (65 \<le> n \<and> n \<le> 90) \<or> (192 \<le> n \<and> n \<le> 222 \<and> n \<noteq> 215)
     then Char (digit0 c) (digit1 c) (digit2 c) (digit3 c) (digit4 c) True (digit6 c) (digit7 c)
     else c)"

definition toLowerCase :: "string \<Rightarrow> string" where
  "toLowerCase s = map toLowerCase_char s"

text \<open>
  The canonicalisation of a code unit under the \<open>i\<close> flag of a non-Unicode regular
  expression: the upper-case mapping, kept only when it is a single code unit.  In the
  Latin-1 range \<open>a\<close>..\<open>z\<close> and U+00E0..U+00FE (without the division sign U+00F7) move
  down by 32.  U+00DF has a two-letter upper case and stays; U+00B5 and U+00FF map
  outside the range to code units that no other code unit below 256 maps to, so keeping
  them fixed gives the same equivalence.
\<close>

definition canonicalize :: "char \<Rightarrow> char" where
  "canonicalize c = (let n = code_unit c in
     if (97 \<le> n \<and> n \<le> 122) \<or> (224 \<le> n \<and> n \<le> 254 \<and> n \<noteq> 247)
     then Char (digit0 c) (digit1 c) (digit2 c) (digit3 c) (digit4 c) False (digit6 c) (digit7 c)
     else c)"

text \<open>\<^verbatim>\<open>String.prototype.includes\<close>: the argument occurs at some position.\<close>

fun includes_str :: "string \<Rightarrow> string \<Rightarrow> bool" where
  "includes_str [] sub = (sub = [])"
| "includes_str (c # cs) sub = (prefix sub (c # cs) \<or> includes_str cs sub)"

text \<open>
  \<^verbatim>\<open>String.prototype.split\<close> with a one-character separator: the pieces between the
  separators, all of them, in order.  \<open>split_from\<close> carries the piece read so far.
\<close>

fun split_from :: "char \<Rightarrow> string \<Rightarrow> string \<Rightarrow> string list" where
  "split_from sep piece [] = [piece]"
| "split_from sep piece (c # cs) =
     (if c = sep then piece # split_from sep [] cs else split_from sep (piece @ [c]) cs)"

definition split :: "char \<Rightarrow> string \<Rightarrow> string list" where
  "split sep s = split_from sep [] s"

section \<open>Regular expressions\<close>

text \<open>
  The two regular expressions of the source are sequences of character classes, each
  taken once, optionally (\<open>?\<close>) or one or more times (\<open>+\<close>), with one capture group.
  An item is a class, its quantifier and whether it lies in the capture group.  \<open>Star\<close>
  is the tail of a \<open>+\<close> after its first character.
\<close>

datatype quant = One | Opt | Plus | Star

type_synonym item = "(char \<Rightarrow> bool) \<times> quant \<times> bool"

definition grp :: "bool \<Rightarrow> char \<Rightarrow> string \<Rightarrow> string" where
  "grp cap c r = (if cap then c # r else r)"

text \<open>
  Backtracking match of the items at the start of a string, greedy quantifiers first,
  as \<^verbatim>\<open>RegExp.prototype.exec\<close> does at one position.  The result is the text of the
  capture group.
\<close>

fun match_here :: "item list \<Rightarrow> string \<Rightarrow> string option" where
  "match_here [] s = Some []"
| "match_here ((cls, One, cap) # its) [] = None"
| "match_here ((cls, One, cap) # its) (c # cs) =
     (if cls c then map_option (grp cap c) (match_here its cs) else None)"
| "match_here ((cls, Opt, cap) # its) [] = match_here its []"
| "match_here ((cls, Opt, cap) # its) (c # cs) =
     (if cls c
      then (case match_here its cs of
              Some r \<Rightarrow> Some (grp cap c r)
            | None \<Rightarrow> match_here its (c # cs))
      else match_here its (c # cs))"
| "match_here ((cls, Plus, cap) # its) [] = None"
| "match_here ((cls, Plus, cap) # its) (c # cs) =
     (if cls c then map_option (grp cap c) (match_here ((cls, Star, cap) # its) cs) else None)"
| "match_here ((cls, Star, cap) # its) [] = match_here its []"
| "match_here ((cls, Star, cap) # its) (c # cs) =
     (if cls c
      then (case match_here ((cls, Star, cap) # its) cs of
              Some r \<Rightarrow> Some (grp cap c r)
            | None \<Rightarrow> match_here its (c # cs))
      else match_here its (c # cs))"

text \<open>
  \<^verbatim>\<open>String.prototype.match\<close> with a regular expression without the \<open>g\<close> flag: the
  leftmost position where the expression matches; \<open>None\<close> is JavaScript's \<open>null\<close>, and
  \<open>Some r\<close> carries element 1 of the match array.
\<close>

fun js_match :: "item list \<Rightarrow> string \<Rightarrow> string option" where
  "js_match its [] = match_here its []"
| "js_match its (c # cs) =
     (case match_here its (c # cs) of Some r \<Rightarrow> Some r | None \<Rightarrow> js_match its cs)"

text \<open>The classes \<open>\d\<close>, \<open>\s\<close> (below 256), \<open>\S\<close>, \<open>[\d.]\<close> and \<open>[-\s]\<close>.\<close>

definition is_digit :: "char \<Rightarrow> bool" where
  "is_digit c = (c \<in> set ''0123456789'')"

definition is_space :: "char \<Rightarrow> bool" where
  "is_space c = (c \<in> set [CHR 0x09, CHR 0x0A, CHR 0x0B, CHR 0x0C, CHR 0x0D, CHR 0x20, CHR 0xA0])"

definition is_non_space :: "char \<Rightarrow> bool" where
  "is_non_space c = (\<not> is_space c)"

definition is_digit_or_dot :: "char \<Rightarrow> bool" where
  "is_digit_or_dot c = (is_digit c \<or> c = CHR ''.'')"

definition is_dash_or_space :: "char \<Rightarrow> bool" where
  "is_dash_or_space c = (c = CHR ''-'' \<or> is_space c)"

definition lit :: "char \<Rightarrow> item" where
  "lit k = ((\<lambda>c. c = k), One, False)"

definition lit_i :: "char \<Rightarrow> item" where
  "lit_i k = ((\<lambda>c. canonicalize c = canonicalize k), One, False)"

text \<open>\<^verbatim>\<open>new RegExp(`${product}[-\\s]?([\\d.]+)`, "i")\<close>\<close>

definition version_regex :: "string \<Rightarrow> item list" where
  "version_regex product =
     map lit_i product @ [(is_dash_or_space, Opt, False), (is_digit_or_dot, Plus, True)]"

text \<open>\<^verbatim>\<open>/SSH-\d+\.\d+-(\S+)/\<close>\<close>

definition ssh_regex :: "item list" where
  "ssh_regex =
     map lit ''SSH-'' @
     [(is_digit, Plus, False), lit CHR ''.'', (is_digit, Plus, False), lit CHR ''-'',
      (is_non_space, Plus, True)]"

section \<open>Banner inference\<close>

text \<open>
  One CPE-like identity.  \<open>version\<close> is \<open>None\<close> where the JavaScript property holds
  \<open>undefined\<close>.
\<close>

record identity =
  part :: string
  vendor :: string
  product :: string
  version :: "string option"

record system_details =
  operating_system :: identity
  software :: "identity list"

text \<open>The object \<open>vendor\<close> of the source, in the order \<^verbatim>\<open>Object.entries\<close> lists it.\<close>

definition vendor_table :: "(string \<times> string) list" where
  "vendor_table =
     [(''ubuntu'', ''canonical''),
      (''debian'', ''debian''),
      (''centos'', ''centos''),
      (''enterprise_linux'', ''redhat''),
      (''fedora'', ''fedora''),
      (''alpine_linux'', ''alpine''),
      (''amazon_linux'', ''amazon'')]"

definition unknown_os :: identity where
  "unknown_os = \<lparr>part = ''o'', vendor = ''unknown'', product = ''unknown'', version = Some ''unknown''\<rparr>"

text \<open>The loop over the table, with its \<open>break\<close> at the first keyword found.\<close>

fun infer_os :: "(string \<times> string) list \<Rightarrow> string \<Rightarrow> identity \<Rightarrow> identity" where
  "infer_os [] banner os = os"
| "infer_os ((productKey, vendorName) # rest) banner os =
     (if includes_str (toLowerCase banner) productKey
      then \<lparr>part = ''o'', vendor = vendorName, product = productKey,
            version = (case js_match (version_regex productKey) banner of
                         Some v \<Rightarrow> Some v
                       | None \<Rightarrow> Some ''unknown'')\<rparr>
      else infer_os rest banner os)"

text \<open>
  The SSH part: element 1 of the match is split at every underscore, the first piece is
  the product and the second piece, \<open>undefined\<close> when there is none, the version.
\<close>

definition infer_software :: "string \<Rightarrow> identity list" where
  "infer_software banner =
     (case js_match ssh_regex banner of
        None \<Rightarrow> []
      | Some softwareDetails \<Rightarrow>
          (let pieces = split CHR ''_'' softwareDetails
           in [\<lparr>part = ''a'', vendor = ''openbsd'',
                product = toLowerCase (hd pieces),
                version = (case tl pieces of [] \<Rightarrow> None | v # _ \<Rightarrow> Some v)\<rparr>]))"

definition inferSystemDetails :: "string \<Rightarrow> system_details" where
  "inferSystemDetails banner =
     \<lparr>operating_system = infer_os vendor_table banner unknown_os,
      software = infer_software banner\<rparr>"

text \<open>
  Splitting a token at its first separator only, as the specification words the SSH
  inference ("splits the captured token on the first underscore into product and
  version"): the part before it and the whole part after it.  It is compared with what
  \<open>infer_software\<close> takes from \<open>split\<close>.
\<close>

definition spec_split_first :: "char \<Rightarrow> string \<Rightarrow> string \<times> string" where
  "spec_split_first sep token =
     (takeWhile (\<lambda>c. c \<noteq> sep) token, tl (dropWhile (\<lambda>c. c \<noteq> sep) token))"

section \<open>Parsing the vulnerability lookup's response\<close>

text \<open>
  The response of the audit API as the parser reads it:
  \<^verbatim>\<open>{result: [{vulnerabilities: [{title, short_description, ai_score,
  metrics: {cvss: {score, severity}}}]}]}\<close>.  The parser only copies \<open>ai_score\<close> and
  \<open>score\<close>, so their types are parameters.
\<close>

record 'n cvss =
  score :: 'n
  severity :: string

record 'n metrics =
  cvss :: "'n cvss"

record ('a, 'n) vulnerability =
  title :: string
  short_description :: string
  ai_score :: 'a
  metrics :: "'n metrics"

record ('a, 'n) audit_result =
  vulnerabilities :: "('a, 'n) vulnerability list"

text \<open>
  The value of the property \<open>result\<close> of a response object: absent (\<open>undefined\<close>),
  \<open>null\<close>, a boolean, a number (the integers stand for the numbers; \<open>NaN\<close>, falsy as
  well, is left out), a string, or the array of results.
\<close>

datatype ('a, 'n) result_field =
  Absent
| RNull
| RBool bool
| RNum int
| RStr string
| RList "('a, 'n) audit_result list"

text \<open>The argument of \<open>parseVulnerabilities\<close>: \<open>null\<close>, \<open>undefined\<close> or an object.\<close>

datatype ('a, 'n) response = Null | Undefined | Object "('a, 'n) result_field"

fun truthy :: "('a, 'n) result_field \<Rightarrow> bool" where
  "truthy Absent = False"
| "truthy RNull = False"
| "truthy (RBool b) = b"
| "truthy (RNum n) = (n \<noteq> 0)"
| "truthy (RStr s) = (s \<noteq> [])"
| "truthy (RList rs) = True"

text \<open>The object pushed for one vulnerability.\<close>

record ('a, 'n) finding =
  title :: string
  description :: string
  ai_score :: 'a
  cvss_score :: 'n
  cvss_severity :: string

datatype js_error = TypeError

text \<open>
  The object \<open>vulnerabilities\<close> of the parser: its own properties in insertion order,
  each holding an array.
\<close>

type_synonym ('a, 'n) buckets = "(string \<times> ('a, 'n) finding list) list"

definition severity_key :: "('a, 'n) vulnerability \<Rightarrow> string" where
  "severity_key vulnerability = toLowerCase (severity (cvss (metrics vulnerability)))"

definition to_finding :: "('a, 'n) vulnerability \<Rightarrow> ('a, 'n) finding" where
  "to_finding vulnerability =
     \<lparr>title = vulnerability.title vulnerability,
      description = short_description vulnerability,
      ai_score = vulnerability.ai_score vulnerability,
      cvss_score = score (cvss (metrics vulnerability)),
      cvss_severity = severity (cvss (metrics vulnerability))\<rparr>"

text \<open>
  \<^verbatim>\<open>vulnerabilities[severity].push({...})\<close>.  For a key that is not one of the object's
  own properties the lookup gives \<open>undefined\<close>, or for \<open>constructor\<close> and \<open>__proto__\<close>
  an inherited value without a callable \<open>push\<close>: the call throws a \<open>TypeError\<close>.
\<close>

definition push_finding ::
  "('a, 'n) buckets \<Rightarrow> ('a, 'n) vulnerability \<Rightarrow> js_error + ('a, 'n) buckets" where
  "push_finding bs vulnerability =
     (let severity = severity_key vulnerability
      in case map_of bs severity of
           None \<Rightarrow> Inl TypeError
         | Some found \<Rightarrow> Inr (AList.update severity (found @ [to_finding vulnerability]) bs))"

text \<open>The inner and the outer \<open>forEach\<close>; a throw ends both.\<close>

fun each_vulnerability ::
  "('a, 'n) buckets \<Rightarrow> ('a, 'n) vulnerability list \<Rightarrow> js_error + ('a, 'n) buckets" where
  "each_vulnerability bs [] = Inr bs"
| "each_vulnerability bs (v # vs) =
     (case push_finding bs v of
        Inl e \<Rightarrow> Inl e
      | Inr bs' \<Rightarrow> each_vulnerability bs' vs)"

fun each_result ::
  "('a, 'n) buckets \<Rightarrow> ('a, 'n) audit_result list \<Rightarrow> js_error + ('a, 'n) buckets" where
  "each_result bs [] = Inr bs"
| "each_result bs (res # rest) =
     (case each_vulnerability bs (vulnerabilities res) of
        Inl e \<Rightarrow> Inl e
      | Inr bs' \<Rightarrow> each_result bs' rest)"

definition empty_buckets :: "('a, 'n) buckets" where
  "empty_buckets = [(''low'', []), (''medium'', []), (''high'', []), (''critical'', [])]"

text \<open>
  \<open>parseVulnerabilities\<close>.  A truthy \<open>result\<close> property that is not an array has no
  \<open>forEach\<close>, and calling it throws.
\<close>

fun parseVulnerabilities :: "('a, 'n) response \<Rightarrow> js_error + ('a, 'n) buckets" where
  "parseVulnerabilities Null = Inr empty_buckets"
| "parseVulnerabilities Undefined = Inr empty_buckets"
| "parseVulnerabilities (Object field) =
     (if truthy field
      then (case field of
              RList results \<Rightarrow> each_result empty_buckets results
            | _ \<Rightarrow> Inl TypeError)
      else Inr empty_buckets)"

text \<open>The findings of one severity key among some vulnerabilities, in their order.\<close>

definition findings_of ::
  "string \<Rightarrow> ('a, 'n) vulnerability list \<Rightarrow> ('a, 'n) finding list" where
  "findings_of k vs = map to_finding (filter (\<lambda>v. severity_key v = k) vs)"

text \<open>All vulnerabilities of a response: result by result, each in its nested order.\<close>

definition all_vulnerabilities ::
  "('a, 'n) audit_result list \<Rightarrow> ('a, 'n) vulnerability list" where
  "all_vulnerabilities results = concat (map vulnerabilities results)"

section \<open>Console output and error objects\<close>

text \<open>
  A message printed by \<open>console.log\<close>, \<open>console.warn\<close> or \<open>console.error\<close> is the list
  of the pieces of its template literal; colours and the leading pictograph are left
  out.
\<close>

datatype piece = S string | N nat

datatype console_call =
  Console_log "piece list"
| Console_warn "piece list"
| Console_error "piece list"

text \<open>An \<open>Error\<close> object: its \<open>code\<close> property, when it has one, and its \<open>message\<close>.\<close>

record error_object =
  code :: "string option"
  message :: string

section \<open>Address resolution\<close>

text \<open>
  \<open>getIpAddresses\<close> (the same text in both versions of the network module).  The second
  argument is what \<^verbatim>\<open>await dnsPromises.resolve4(hostname)\<close> gives: the addresses, or
  the error the promise rejects with.  The result is the console output and what the
  function's own promise settles with (\<open>Inl\<close>: rejected).
\<close>

definition getIpAddresses ::
  "string \<Rightarrow> error_object + string list \<Rightarrow> console_call list \<times> (error_object + string list)" where
  "getIpAddresses hostname resolve4 =
     (case resolve4 of
        Inr addressesV4 \<Rightarrow> ([], Inr addressesV4)
      | Inl error \<Rightarrow>
          (Console_error [S ''Error resolving hostname '', S hostname, S '':'', S (message error)] #
           (if code error = Some ''ENOTFOUND''
            then [Console_error [S ''Could not find DNS records for '', S hostname, S ''.'']]
            else if code error = Some ''ENODATA''
            then [Console_error [S ''DNS server responded, but no A records found for '',
                                 S hostname, S ''.'']]
            else []),
           Inr []))"

section \<open>Sockets\<close>

text \<open>
  What a probe does with its socket: the timeout set with \<open>socket.setTimeout\<close>,
  \<open>socket.destroy()\<close> and \<open>socket.end()\<close>.
\<close>

record socket =
  timeout_ms :: "nat option"
  destroyed :: bool
  ended :: bool

definition new_socket :: socket where
  "new_socket = \<lparr>timeout_ms = None, destroyed = False, ended = False\<rparr>"

text \<open>
  The peer certificate as the check reads it: the \<open>CN\<close> of \<open>cert.issuer\<close> (the outer
  \<open>None\<close>: no issuer, as for the empty object of a peer without certificate) and the
  \<open>CN\<close> of \<open>cert.subject\<close>, which a certificate with an issuer has.
\<close>

record certificate =
  issuer_CN :: "string option option"
  subject_CN :: "string option"

text \<open>The events a socket emits to the listeners of a probe.\<close>

datatype socket_event =
  Connect
| SecureConnect certificate
| Data string
| SockError error_object
| Timeout

text \<open>
  A running probe: its socket, what its promise has settled with (\<open>None\<close>: still
  pending), the console output so far, and whether the \<open>once('data')\<close> listener is
  registered.
\<close>

record 'r probe =
  sock :: socket
  settled :: "'r option"
  console :: "console_call list"
  data_listener :: bool

text \<open>\<open>resolve\<close> and \<open>reject\<close>: only the first call settles the promise.\<close>

definition settle :: "'r \<Rightarrow> 'r probe \<Rightarrow> 'r probe" where
  "settle r st = (case settled st of None \<Rightarrow> st\<lparr>settled := Some r\<rparr> | Some _ \<Rightarrow> st)"

definition destroy :: "'r probe \<Rightarrow> 'r probe" where
  "destroy st = st\<lparr>sock := (sock st)\<lparr>destroyed := True\<rparr>\<rparr>"

definition end_socket :: "'r probe \<Rightarrow> 'r probe" where
  "end_socket st = st\<lparr>sock := (sock st)\<lparr>ended := True\<rparr>\<rparr>"

definition print :: "console_call \<Rightarrow> 'r probe \<Rightarrow> 'r probe" where
  "print c st = st\<lparr>console := console st @ [c]\<rparr>"

definition start :: "nat option \<Rightarrow> 'r probe" where
  "start t = \<lparr>sock = new_socket\<lparr>timeout_ms := t\<rparr>, settled = None, console = [],
              data_listener = False\<rparr>"

text \<open>
  Delivery of one event to the listeners \<open>on\<close> of a probe.  A destroyed socket emits
  nothing more; Node destroys a socket when it emits \<open>error\<close>; only a socket with a
  timeout emits \<open>timeout\<close>.
\<close>

definition dispatch ::
  "('r probe \<Rightarrow> socket_event \<Rightarrow> 'r probe) \<Rightarrow> 'r probe \<Rightarrow> socket_event \<Rightarrow> 'r probe" where
  "dispatch on st ev =
     (if destroyed (sock st) then st
      else case ev of
             SockError e \<Rightarrow> on (destroy st) ev
           | Timeout \<Rightarrow> (if timeout_ms (sock st) = None then st else on st ev)
           | _ \<Rightarrow> on st ev)"

fun emit ::
  "('r probe \<Rightarrow> socket_event \<Rightarrow> 'r probe) \<Rightarrow> 'r probe \<Rightarrow> socket_event list \<Rightarrow> 'r probe" where
  "emit on st [] = st"
| "emit on st (ev # evs) = emit on (dispatch on st ev) evs"

subsection \<open>The banner prober\<close>

text \<open>
  The listeners of \<open>getHostBanner\<close>: the connect callback registers the one-shot
  \<open>data\<close> listener, which destroys the socket and resolves with the chunk; \<open>error\<close>
  and \<open>timeout\<close> destroy the socket and reject.
\<close>

fun getHostBanner_on ::
  "(error_object + string) probe \<Rightarrow> socket_event \<Rightarrow> (error_object + string) probe" where
  "getHostBanner_on st Connect = st\<lparr>data_listener := True\<rparr>"
| "getHostBanner_on st (Data chunk) =
     (if data_listener st
      then settle (Inr chunk) (destroy (st\<lparr>data_listener := False\<rparr>))
      else st)"
| "getHostBanner_on st (SockError err) = settle (Inl err) (destroy st)"
| "getHostBanner_on st Timeout =
     settle (Inl \<lparr>code = None, message = ''Connection timed out''\<rparr>) (destroy st)"
| "getHostBanner_on st (SecureConnect cert) = st"

definition getHostBanner ::
  "string \<Rightarrow> nat \<Rightarrow> socket_event list \<Rightarrow> (error_object + string) probe" where
  "getHostBanner host port events = emit getHostBanner_on (start (Some 5000)) events"

subsection \<open>The checks of the banner-based network module\<close>

text \<open>
  \<open>testMySQLService\<close> of the module that probes through \<open>getHostBanner\<close>.  The result
  is the console output and the boolean the function returns, \<open>None\<close> while the awaited
  promise is pending.
\<close>

definition testMySQLService_banner ::
  "string \<Rightarrow> nat \<Rightarrow> socket_event list \<Rightarrow> console_call list \<times> bool option" where
  "testMySQLService_banner host port events =
     (case settled (getHostBanner host port events) of
        None \<Rightarrow> ([], None)
      | Some (Inr banner) \<Rightarrow>
          (if banner \<noteq> []
           then ([Console_warn [S ''MySQL service is exposed on '', S host, S '':'', N port]],
                 Some False)
           else ([], Some False))
      | Some (Inl error) \<Rightarrow>
          (if includes_str (message error) ''Connection timed out''
              \<or> includes_str (message error) ''ECONNREFUSED''
           then ([Console_log [S ''MySQL service is not exposed on '', S host, S '':'', N port]],
                 Some True)
           else ([Console_error [S ''Error connecting to '', S host, S '':'', N port, S '': '',
                                 S (message error)]],
                 Some False)))"

definition testEmailServiceWithoutTLS_banner ::
  "string \<Rightarrow> nat \<Rightarrow> socket_event list \<Rightarrow> console_call list \<times> bool option" where
  "testEmailServiceWithoutTLS_banner host port events =
     (case settled (getHostBanner host port events) of
        None \<Rightarrow> ([], None)
      | Some (Inr banner) \<Rightarrow>
          (if includes_str banner ''ESMTP'' \<and> \<not> includes_str banner ''STARTTLS''
           then ([Console_warn [S ''Email service on '', S host, S '':'', N port,
                                S '' does not support SSL/TLS'']],
                 Some False)
           else ([Console_log [S ''Email service on '', S host, S '':'', N port,
                               S '' supports SSL/TLS'']],
                 Some True))
      | Some (Inl error) \<Rightarrow>
          (if includes_str (message error) ''Connection timed out''
              \<or> includes_str (message error) ''ECONNREFUSED''
           then ([Console_log [S ''Email service is not exposed on '', S host, S '':'', N port]],
                 Some True)
           else ([Console_error [S ''Error connecting to '', S host, S '':'', N port, S '': '',
                                 S (message error)]],
                 Some False)))"

subsection \<open>The checks that listen on their own socket\<close>

text \<open>\<open>testMySQLService\<close> of \<open>src/bin/network.js\<close>: a socket with a timeout of 5000 ms.\<close>

fun testMySQLService_on :: "string \<Rightarrow> nat \<Rightarrow> bool probe \<Rightarrow> socket_event \<Rightarrow> bool probe" where
  "testMySQLService_on host port st Connect =
     settle False (destroy
       (print (Console_warn [S ''MySQL service is exposed on '', S host, S '':'', N port]) st))"
| "testMySQLService_on host port st (SockError err) =
     settle True
       (print (Console_log [S ''MySQL service is not exposed on '', S host, S '':'', N port]) st)"
| "testMySQLService_on host port st Timeout =
     settle True (destroy
       (print (Console_log [S ''MySQL service is not exposed on '', S host, S '':'', N port]) st))"
| "testMySQLService_on host port st (Data chunk) = st"
| "testMySQLService_on host port st (SecureConnect cert) = st"

definition testMySQLService :: "string \<Rightarrow> nat \<Rightarrow> socket_event list \<Rightarrow> bool probe" where
  "testMySQLService host port events =
     emit (testMySQLService_on host port) (start (Some 5000)) events"

text \<open>
  \<open>testSelfSignedCertificate\<close> (the same text in both versions): \<open>tls.connect\<close> with
  the callback for \<open>secureConnect\<close> and a listener for \<open>error\<close>.  No timeout is set and
  there is no listener for \<open>timeout\<close>.
\<close>

fun testSelfSignedCertificate_on ::
  "string \<Rightarrow> nat \<Rightarrow> bool probe \<Rightarrow> socket_event \<Rightarrow> bool probe" where
  "testSelfSignedCertificate_on host port st (SecureConnect cert) =
     end_socket
       (if issuer_CN cert \<noteq> None \<and> the (issuer_CN cert) = subject_CN cert
        then settle False
               (print (Console_warn [S ''Self-signed certificate detected on '', S host, S '':'',
                                     N port]) st)
        else settle True
               (print (Console_log [S ''Valid certificate detected on '', S host, S '':'',
                                    N port]) st))"
| "testSelfSignedCertificate_on host port st (SockError err) =
     settle False
       (print (Console_error [S ''Error connecting to '', S host, S '':'', N port, S '': '',
                              S (message err)]) st)"
| "testSelfSignedCertificate_on host port st Connect = st"
| "testSelfSignedCertificate_on host port st (Data chunk) = st"
| "testSelfSignedCertificate_on host port st Timeout = st"

definition testSelfSignedCertificate :: "string \<Rightarrow> nat \<Rightarrow> socket_event list \<Rightarrow> bool probe" where
  "testSelfSignedCertificate host port events =
     emit (testSelfSignedCertificate_on host port) (start None) events"

subsection \<open>The mail and SSH checks of \<open>src/bin/network.js\<close>\<close>

text \<open>
  \<open>testEmailServiceWithoutTLS\<close> of \<open>src/bin/network.js\<close>: a socket with a timeout of
  5000 ms; the connect callback registers the one-shot \<open>data\<close> listener, which judges
  the banner, resolves and destroys the socket.
\<close>

fun testEmailServiceWithoutTLS_on ::
  "string \<Rightarrow> nat \<Rightarrow> bool probe \<Rightarrow> socket_event \<Rightarrow> bool probe" where
  "testEmailServiceWithoutTLS_on host port st Connect = st\<lparr>data_listener := True\<rparr>"
| "testEmailServiceWithoutTLS_on host port st (Data banner) =
     (if data_listener st
      then destroy
             (if includes_str banner ''ESMTP'' \<and> \<not> includes_str banner ''STARTTLS''
              then settle False
                     (print (Console_warn [S ''Email service on '', S host, S '':'', N port,
                                           S '' does not support SSL/TLS''])
                        (st\<lparr>data_listener := False\<rparr>))
              else settle True
                     (print (Console_log [S ''Email service on '', S host, S '':'', N port,
                                          S '' supports SSL/TLS''])
                        (st\<lparr>data_listener := False\<rparr>)))
      else st)"
| "testEmailServiceWithoutTLS_on host port st (SockError err) =
     settle True
       (print (Console_log [S ''Email service is not exposed on '', S host, S '':'', N port]) st)"
| "testEmailServiceWithoutTLS_on host port st Timeout =
     settle True (destroy
       (print (Console_log [S ''Email service is not exposed on '', S host, S '':'', N port]) st))"
| "testEmailServiceWithoutTLS_on host port st (SecureConnect cert) = st"

definition testEmailServiceWithoutTLS :: "string \<Rightarrow> nat \<Rightarrow> socket_event list \<Rightarrow> bool probe" where
  "testEmailServiceWithoutTLS host port events =
     emit (testEmailServiceWithoutTLS_on host port) (start (Some 5000)) events"

text \<open>\<^verbatim>\<open>/OpenSSH_([\d.]+)/\<close>\<close>

definition openssh_regex :: "item list" where
  "openssh_regex = map lit ''OpenSSH_'' @ [(is_digit_or_dot, Plus, True)]"

text \<open>
  \<open>testOpenSSHVersion\<close> of \<open>src/bin/network.js\<close>: as the mail check, with the version
  taken from the banner and compared with \<open>8.9p1\<close>.
\<close>

fun testOpenSSHVersion_on ::
  "string \<Rightarrow> nat \<Rightarrow> bool probe \<Rightarrow> socket_event \<Rightarrow> bool probe" where
  "testOpenSSHVersion_on host port st Connect = st\<lparr>data_listener := True\<rparr>"
| "testOpenSSHVersion_on host port st (Data banner) =
     (if data_listener st
      then destroy
             (case js_match openssh_regex banner of
                Some found \<Rightarrow>
                  (if found = ''8.9p1''
                   then settle False
                          (print (Console_warn [S ''Vulnerable OpenSSH version detected on '',
                                                S host, S '':'', N port, S '': '', S found])
                             (st\<lparr>data_listener := False\<rparr>))
                   else settle True
                          (print (Console_log [S ''OpenSSH version on '', S host, S '':'', N port,
                                               S '' is secure: '', S found])
                             (st\<lparr>data_listener := False\<rparr>)))
              | None \<Rightarrow>
                  settle False
                    (print (Console_warn [S ''Unable to determine OpenSSH version on '', S host,
                                          S '':'', N port])
                       (st\<lparr>data_listener := False\<rparr>)))
      else st)"
| "testOpenSSHVersion_on host port st (SockError err) =
     settle True
       (print (Console_log [S ''SSH service is not exposed on '', S host, S '':'', N port]) st)"
| "testOpenSSHVersion_on host port st Timeout =
     settle True (destroy
       (print (Console_log [S ''SSH service is not exposed on '', S host, S '':'', N port]) st))"
| "testOpenSSHVersion_on host port st (SecureConnect cert) = st"

definition testOpenSSHVersion :: "string \<Rightarrow> nat \<Rightarrow> socket_event list \<Rightarrow> bool probe" where
  "testOpenSSHVersion host port events =
     emit (testOpenSSHVersion_on host port) (start (Some 5000)) events"

subsection \<open>The vulnerability lookup and the SSH check of the banner-based module\<close>

text \<open>The body of the request: \<open>{software, operating_system, fields}\<close>.\<close>

record vulners_query =
  query_software :: "identity list"
  query_operating_system :: identity
  query_fields :: "string list"

text \<open>
  What \<open>fetch\<close> gives for a request: it rejects with an error, or it delivers a response
  with its \<open>ok\<close> flag, its \<open>status\<close> and what \<open>response.json()\<close> settles with.
\<close>

datatype ('a, 'n) fetched =
  Fetch_failed error_object
| Fetch_response bool nat "error_object + ('a, 'n) response"

text \<open>A number inside a template literal: its decimal digits.\<close>

function decimal :: "nat \<Rightarrow> string" where
  "decimal n =
     (if n < 10 then [''0123456789'' ! n]
      else decimal (n div 10) @ [''0123456789'' ! (n mod 10)])"
  by pat_completeness auto
termination
  by (relation "measure id") auto

declare decimal.simps [simp del]

text \<open>
  \<open>queryVulnersAPI\<close>.  The second argument is the network: what \<open>fetch\<close> gives for a
  request, \<open>None\<close> when it never settles.  The result is the console output and what the
  function's promise settles with (\<open>Inl\<close>: rejected, after the error was printed).
\<close>

definition queryVulnersAPI ::
  "vulners_query \<Rightarrow> (vulners_query \<Rightarrow> ('a, 'n) fetched option) \<Rightarrow>
   console_call list \<times> (error_object + ('a, 'n) response) option" where
  "queryVulnersAPI query fetch =
     (case fetch query of
        None \<Rightarrow> ([], None)
      | Some (Fetch_failed error) \<Rightarrow>
          ([Console_error [S ''Error querying Vulners API: '', S (message error)]],
           Some (Inl error))
      | Some (Fetch_response ok status body) \<Rightarrow>
          (if \<not> ok
           then (let error = \<lparr>code = None,
                              message = ''Vulners API request failed with status '' @
                                        decimal status\<rparr>
                 in ([Console_error [S ''Error querying Vulners API: '', S (message error)]],
                     Some (Inl error)))
           else (case body of
                   Inl error \<Rightarrow>
                     ([Console_error [S ''Error querying Vulners API: '', S (message error)]],
                      Some (Inl error))
                 | Inr result \<Rightarrow> ([], Some (Inr result)))))"

text \<open>
  What the SSH check of the banner-based module meets outside its own text: the network
  (\<open>fetch\<close>), the message the engine gives the \<open>TypeError\<close> thrown inside
  \<open>parseVulnerabilities\<close>, and the presentation of the buckets.  The presentation is the
  part of the function between \<open>parseVulnerabilities\<close> and the end of its branch: it
  builds the rows of a table, has the external \<open>table\<close> library render them, and prints
  the table and one list per severity through \<open>wrapText\<close>.  It reads the host, the port
  and the buckets only; here it is the lines it prints and the error it throws, if any.
\<close>

record ('a, 'n) surroundings =
  fetch :: "vulners_query \<Rightarrow> ('a, 'n) fetched option"
  type_error_message :: string
  presentation :: "string \<Rightarrow> nat \<Rightarrow> ('a, 'n) buckets \<Rightarrow> console_call list \<times> error_object option"

text \<open>The \<open>catch\<close> block of the SSH check.\<close>

definition processing_error :: "string \<Rightarrow> nat \<Rightarrow> string \<Rightarrow> console_call" where
  "processing_error host port msg =
     Console_error [S ''Error processing OpenSSH version for '', S host, S '':'', N port,
                    S '': '', S msg]"

text \<open>The test \<open>result && result.result\<close>.\<close>

fun has_result :: "('a, 'n) response \<Rightarrow> bool" where
  "has_result Null = False"
| "has_result Undefined = False"
| "has_result (Object field) = truthy field"

text \<open>
  \<open>testOpenSSHVersion\<close> of the banner-based module.  Every path through \<open>try\<close>,
  \<open>catch\<close> and \<open>finally\<close> ends in \<open>resolve()\<close>: the promise resolves with \<open>undefined\<close>
  (\<open>Some ()\<close>), or stays pending (\<open>None\<close>) while an awaited promise does.
\<close>

definition testOpenSSHVersion_banner ::
  "string \<Rightarrow> nat \<Rightarrow> socket_event list \<Rightarrow> ('a, 'n) surroundings \<Rightarrow>
   console_call list \<times> unit option" where
  "testOpenSSHVersion_banner host port events world =
     (case settled (getHostBanner host port events) of
        None \<Rightarrow> ([], None)
      | Some (Inl error) \<Rightarrow> ([processing_error host port (message error)], Some ())
      | Some (Inr banner) \<Rightarrow>
          (let systemDetails = inferSystemDetails banner;
               query = \<lparr>query_software = software systemDetails,
                        query_operating_system = operating_system systemDetails,
                        query_fields = [''title'', ''short_description'', ''cvelist'',
                                        ''ai_score'', ''metrics'']\<rparr>
           in case queryVulnersAPI query (fetch world) of
                (out, None) \<Rightarrow> (out, None)
              | (out, Some (Inl error)) \<Rightarrow>
                  (out @ [processing_error host port (message error)], Some ())
              | (out, Some (Inr result)) \<Rightarrow>
                  (if has_result result
                   then (case parseVulnerabilities result of
                           Inl thrown \<Rightarrow>
                             (out @ [processing_error host port (type_error_message world)],
                              Some ())
                         | Inr parsed \<Rightarrow>
                             (case presentation world host port parsed of
                                (lines, None) \<Rightarrow> (out @ lines, Some ())
                              | (lines, Some error) \<Rightarrow>
                                  (out @ lines @ [processing_error host port (message error)],
                                   Some ())))
                   else (out @ [Console_error [S ''No valid response from Vulners API.'']],
                         Some ()))))"

section \<open>Properties of the banner inference\<close>

lemmas class_defs = is_digit_def is_space_def is_non_space_def is_digit_or_dot_def
  is_dash_or_space_def
lemmas char_defs = canonicalize_def toLowerCase_char_def code_unit_def
lemmas regex_defs = version_regex_def ssh_regex_def lit_def lit_i_def grp_def
lemmas infer_defs = inferSystemDetails_def infer_software_def vendor_table_def unknown_os_def
  toLowerCase_def split_def

lemma infer_os_find:
  "infer_os tbl banner os =
     (case find (\<lambda>(p, v). includes_str (toLowerCase banner) p) tbl of
        None \<Rightarrow> os
      | Some (p, v) \<Rightarrow>
          \<lparr>part = ''o'', vendor = v, product = p,
           version = Some (case js_match (version_regex p) banner of
                             Some x \<Rightarrow> x | None \<Rightarrow> ''unknown'')\<rparr>)"
  by (induction tbl banner os rule: infer_os.induct) (auto split: option.splits)

lemma includes_str_append:
  "includes_str ys sub \<Longrightarrow> includes_str (xs @ ys) sub"
  by (induction xs) (auto)

lemma includes_str_prefix:
  "prefix sub ys \<Longrightarrow> includes_str ys sub"
  by (cases ys) auto

lemma js_match_here:
  "match_here its s = Some r \<Longrightarrow> js_match its s = Some r"
  by (cases s) auto

lemma js_match_skip:
  "(\<forall>i<length pre. match_here its (drop i (pre @ s)) = None) \<Longrightarrow>
   js_match its (pre @ s) = js_match its s"
proof (induction pre)
  case Nil
  then show ?case by simp
next
  case (Cons c pre)
  have here: "match_here its (c # pre @ s) = None"
    using Cons.prems by (auto dest: spec [of _ 0])
  have "\<forall>i<length pre. match_here its (drop i (pre @ s)) = None"
  proof (intro allI impI)
    fix i assume "i < length pre"
    then have "match_here its (drop (Suc i) ((c # pre) @ s)) = None"
      using Cons.prems [rule_format, of "Suc i"] by simp
    then show "match_here its (drop i (pre @ s)) = None" by simp
  qed
  then show ?case using Cons.IH here by simp
qed

lemma star_end:
  "post = [] \<or> \<not> cls (hd post) \<Longrightarrow> match_here [(cls, Star, cap)] post = Some []"
  by (cases post) auto

lemma ubuntu_here:
  assumes "post = [] \<or> \<not> is_digit_or_dot (hd post)"
  shows "match_here (version_regex ''ubuntu'') (''ubuntu-22.04'' @ post) = Some ''22.04''"
  using star_end [of post is_digit_or_dot True] assms
  by (simp add: regex_defs char_defs class_defs)

lemma ssh_here:
  assumes "post = [] \<or> is_space (hd post)"
  shows "match_here ssh_regex (''SSH-2.0-OpenSSH_9.6'' @ post) = Some ''OpenSSH_9.6''"
proof -
  have "post = [] \<or> \<not> is_non_space (hd post)" using assms by (simp add: is_non_space_def)
  with star_end [of post is_non_space True] show ?thesis
    by (simp add: regex_defs class_defs)
qed

lemma split_from_nonempty: "split_from sep p s \<noteq> []"
  by (induction s arbitrary: p) auto

lemma hd_split_from: "hd (split_from sep p s) = p @ takeWhile (\<lambda>c. c \<noteq> sep) s"
  by (induction s arbitrary: p) auto

lemma tl_split_from:
  "tl (split_from sep p s) =
     (case dropWhile (\<lambda>c. c \<noteq> sep) s of [] \<Rightarrow> [] | _ # r \<Rightarrow> split_from sep [] r)"
  by (induction s arbitrary: p) auto

lemma hd_split: "hd (split sep s) = takeWhile (\<lambda>c. c \<noteq> sep) s"
  by (simp add: split_def hd_split_from)

lemma split_second:
  assumes "sep \<in> set s"
  shows "tl (split sep s) \<noteq> [] \<and>
   hd (tl (split sep s)) = takeWhile (\<lambda>c. c \<noteq> sep) (tl (dropWhile (\<lambda>c. c \<noteq> sep) s))"
proof -
  from assms obtain r where d: "dropWhile (\<lambda>c. c \<noteq> sep) s = sep # r"
    by (cases "dropWhile (\<lambda>c. c \<noteq> sep) s") (auto simp: dropWhile_eq_Cons_conv dest: hd_dropWhile)
  have "tl (split sep s) = split_from sep [] r"
    by (simp add: split_def tl_split_from d)
  moreover have "split_from sep [] r \<noteq> []"
    by (rule split_from_nonempty)
  moreover have "hd (split_from sep [] r) = takeWhile (\<lambda>c. c \<noteq> sep) r"
    by (simp add: hd_split_from)
  ultimately show ?thesis by (simp add: d)
qed

lemma os_general:
  "operating_system (inferSystemDetails banner) =
     (case find (\<lambda>(p, v). includes_str (toLowerCase banner) p) vendor_table of
        None \<Rightarrow> \<lparr>part = ''o'', vendor = ''unknown'', product = ''unknown'',
                 version = Some ''unknown''\<rparr>
      | Some (p, v) \<Rightarrow>
          \<lparr>part = ''o'', vendor = v, product = p,
           version = Some (case js_match (version_regex p) banner of
                             Some x \<Rightarrow> x | None \<Rightarrow> ''unknown'')\<rparr>)"
  by (simp add: inferSystemDetails_def infer_os_find unknown_os_def)

lemma os_ubuntu:
  assumes b: "banner = pre @ ''ubuntu-22.04'' @ post"
    and first: "\<forall>i<length pre. match_here (version_regex ''ubuntu'') (drop i banner) = None"
    and stop: "post = [] \<or> \<not> is_digit_or_dot (hd post)"
  shows "operating_system (inferSystemDetails banner) =
     \<lparr>part = ''o'', vendor = ''canonical'', product = ''ubuntu'', version = Some ''22.04''\<rparr>"
proof -
  have "prefix ''ubuntu'' (toLowerCase (''ubuntu-22.04'' @ post))"
    by (simp add: toLowerCase_def char_defs)
  then have "includes_str (toLowerCase pre @ toLowerCase (''ubuntu-22.04'' @ post)) ''ubuntu''"
    by (intro includes_str_append includes_str_prefix)
  then have inc: "includes_str (toLowerCase banner) ''ubuntu''"
    by (simp add: b toLowerCase_def)
  have "js_match (version_regex ''ubuntu'') (pre @ ''ubuntu-22.04'' @ post) =
        js_match (version_regex ''ubuntu'') (''ubuntu-22.04'' @ post)"
    using first unfolding b by (rule js_match_skip)
  also have "\<dots> = Some ''22.04''"
    using ubuntu_here [OF stop] by (rule js_match_here)
  finally have ver: "js_match (version_regex ''ubuntu'') banner = Some ''22.04''"
    by (simp add: b)
  show ?thesis
    using inc ver by (simp add: inferSystemDetails_def vendor_table_def)
qed

text \<open>
  Claim C1, as amended.  For every banner the operating-system identity is decided by
  the first entry of the table ubuntu, debian, centos, enterprise_linux, fedora,
  alpine_linux, amazon_linux (in this order) whose keyword occurs in the lower-cased
  banner: vendor and product are those of that entry, and the version is the capture of
  the leftmost match of \<open><product>[-\s]?([\d.]+)\<close> (ignoring case) in the banner, or
  \<open>unknown\<close> when it does not match; when no keyword occurs the identity is all
  \<open>unknown\<close>.  A banner that contains \<open>ubuntu-22.04\<close> yields canonical / ubuntu /
  22.04 when the version pattern matches at no earlier position and the occurrence is
  not followed by a further digit or dot.
\<close>

theorem inferSystemDetails_operating_system:
  "operating_system (inferSystemDetails banner) =
     (case find (\<lambda>(p, v). includes_str (toLowerCase banner) p) vendor_table of
        None \<Rightarrow> \<lparr>part = ''o'', vendor = ''unknown'', product = ''unknown'',
                 version = Some ''unknown''\<rparr>
      | Some (p, v) \<Rightarrow>
          \<lparr>part = ''o'', vendor = v, product = p,
           version = Some (case js_match (version_regex p) banner of
                             Some x \<Rightarrow> x | None \<Rightarrow> ''unknown'')\<rparr>)
   \<and> vendor_table =
       [(''ubuntu'', ''canonical''), (''debian'', ''debian''), (''centos'', ''centos''),
        (''enterprise_linux'', ''redhat''), (''fedora'', ''fedora''),
        (''alpine_linux'', ''alpine''), (''amazon_linux'', ''amazon'')]
   \<and> (banner = pre @ ''ubuntu-22.04'' @ post
        \<and> (\<forall>i<length pre. match_here (version_regex ''ubuntu'') (drop i banner) = None)
        \<and> (post = [] \<or> \<not> is_digit_or_dot (hd post))
      \<longrightarrow> operating_system (inferSystemDetails banner) =
            \<lparr>part = ''o'', vendor = ''canonical'', product = ''ubuntu'',
             version = Some ''22.04''\<rparr>)"
proof (intro conjI impI)
  show "operating_system (inferSystemDetails banner) =
     (case find (\<lambda>(p, v). includes_str (toLowerCase banner) p) vendor_table of
        None \<Rightarrow> \<lparr>part = ''o'', vendor = ''unknown'', product = ''unknown'',
                 version = Some ''unknown''\<rparr>
      | Some (p, v) \<Rightarrow>
          \<lparr>part = ''o'', vendor = v, product = p,
           version = Some (case js_match (version_regex p) banner of
                             Some x \<Rightarrow> x | None \<Rightarrow> ''unknown'')\<rparr>)"
    by (rule os_general)
  show "vendor_table =
       [(''ubuntu'', ''canonical''), (''debian'', ''debian''), (''centos'', ''centos''),
        (''enterprise_linux'', ''redhat''), (''fedora'', ''fedora''),
        (''alpine_linux'', ''alpine''), (''amazon_linux'', ''amazon'')]"
    by (simp add: vendor_table_def)
next
  assume "banner = pre @ ''ubuntu-22.04'' @ post
        \<and> (\<forall>i<length pre. match_here (version_regex ''ubuntu'') (drop i banner) = None)
        \<and> (post = [] \<or> \<not> is_digit_or_dot (hd post))"
  then show "operating_system (inferSystemDetails banner) =
            \<lparr>part = ''o'', vendor = ''canonical'', product = ''ubuntu'',
             version = Some ''22.04''\<rparr>"
    using os_ubuntu [of banner pre post] by blast
qed

text \<open>The banner \<open>OS ubuntu-22.04 LTS\<close> satisfies the conditions of the last part.\<close>

theorem inferSystemDetails_operating_system_witness:
  "operating_system (inferSystemDetails ''OS ubuntu-22.04 LTS'') =
     \<lparr>part = ''o'', vendor = ''canonical'', product = ''ubuntu'', version = Some ''22.04''\<rparr>"
proof -
  have first: "\<forall>i<length ''OS ''.
      match_here (version_regex ''ubuntu'') (drop i ''OS ubuntu-22.04 LTS'') = None"
    by (simp add: less_Suc_eq regex_defs char_defs class_defs)
  have stop: "'' LTS'' = [] \<or> \<not> is_digit_or_dot (hd '' LTS'')"
    by (simp add: class_defs)
  have shape: "''OS ubuntu-22.04 LTS'' = ''OS '' @ ''ubuntu-22.04'' @ '' LTS''"
    by simp
  show ?thesis
    by (rule mp [OF inferSystemDetails_operating_system
          [of "''OS ubuntu-22.04 LTS''" "''OS ''" "'' LTS''", THEN conjunct2, THEN conjunct2]])
       (intro conjI shape first stop)
qed

text \<open>
  Without the conditions the last sentence of C1 fails: \<open>ubuntu-22.04.1\<close> contains
  \<open>ubuntu-22.04\<close> and the greedy capture is \<open>22.04.1\<close>.
\<close>

theorem inferSystemDetails_operating_system_counterexample:
  "includes_str ''ubuntu-22.04.1'' ''ubuntu-22.04''
   \<and> version (operating_system (inferSystemDetails ''ubuntu-22.04.1'')) = Some ''22.04.1''
   \<and> version (operating_system (inferSystemDetails ''ubuntu-22.04.1'')) \<noteq> Some ''22.04''"
  by (simp add: inferSystemDetails_def vendor_table_def toLowerCase_def regex_defs char_defs class_defs)

lemma software_none:
  "js_match ssh_regex banner = None \<Longrightarrow> software (inferSystemDetails banner) = []"
  by (simp add: inferSystemDetails_def infer_software_def)

lemma software_some:
  assumes "js_match ssh_regex banner = Some token"
  shows "map (\<lambda>e. (part e, vendor e, product e)) (software (inferSystemDetails banner)) =
           [(''a'', ''openbsd'', toLowerCase (takeWhile (\<lambda>c. c \<noteq> CHR ''_'') token))]"
    and "CHR ''_'' \<in> set token \<Longrightarrow>
         map version (software (inferSystemDetails banner)) =
           [Some (takeWhile (\<lambda>c. c \<noteq> CHR ''_'') (tl (dropWhile (\<lambda>c. c \<noteq> CHR ''_'') token)))]"
proof -
  show "map (\<lambda>e. (part e, vendor e, product e)) (software (inferSystemDetails banner)) =
           [(''a'', ''openbsd'', toLowerCase (takeWhile (\<lambda>c. c \<noteq> CHR ''_'') token))]"
    using assms by (simp add: inferSystemDetails_def infer_software_def Let_def hd_split)
next
  assume "CHR ''_'' \<in> set token"
  from split_second [OF this]
  obtain v vs where "tl (split CHR ''_'' token) = v # vs"
    and "v = takeWhile (\<lambda>c. c \<noteq> CHR ''_'') (tl (dropWhile (\<lambda>c. c \<noteq> CHR ''_'') token))"
    by (cases "tl (split CHR ''_'' token)") auto
  then show "map version (software (inferSystemDetails banner)) =
           [Some (takeWhile (\<lambda>c. c \<noteq> CHR ''_'') (tl (dropWhile (\<lambda>c. c \<noteq> CHR ''_'') token)))]"
    using assms by (simp add: inferSystemDetails_def infer_software_def Let_def)
qed

lemma software_openssh:
  assumes b: "banner = pre @ ''SSH-2.0-OpenSSH_9.6'' @ post"
    and first: "\<forall>i<length pre. match_here ssh_regex (drop i banner) = None"
    and stop: "post = [] \<or> is_space (hd post)"
  shows "software (inferSystemDetails banner) =
     [\<lparr>part = ''a'', vendor = ''openbsd'', product = ''openssh'', version = Some ''9.6''\<rparr>]"
proof -
  have "js_match ssh_regex (pre @ ''SSH-2.0-OpenSSH_9.6'' @ post) =
        js_match ssh_regex (''SSH-2.0-OpenSSH_9.6'' @ post)"
    using first unfolding b by (rule js_match_skip)
  also have "\<dots> = Some ''OpenSSH_9.6''"
    using ssh_here [OF stop] by (rule js_match_here)
  finally have "js_match ssh_regex banner = Some ''OpenSSH_9.6''"
    by (simp add: b)
  then show ?thesis
    by (simp add: inferSystemDetails_def infer_software_def split_def toLowerCase_def char_defs)
qed

text \<open>
  Claim C2, as amended.  When the SSH pattern matches, the software sequence has exactly
  one entry, with part \<open>a\<close>, vendor \<open>openbsd\<close> and as product the lower-cased part of
  the captured token before its first underscore; when the token has an underscore the
  version is the part between its first and its second underscore (all of the rest
  when there is only one).  When the pattern does not match the sequence is empty.  A
  banner that contains \<open>SSH-2.0-OpenSSH_9.6\<close>, followed by white space or nothing, with
  no match of the pattern at an earlier position, yields the single entry openbsd /
  openssh / 9.6.
\<close>

theorem inferSystemDetails_software:
  "(case js_match ssh_regex banner of
      None \<Rightarrow> software (inferSystemDetails banner) = []
    | Some token \<Rightarrow>
        map (\<lambda>e. (part e, vendor e, product e)) (software (inferSystemDetails banner)) =
          [(''a'', ''openbsd'', toLowerCase (takeWhile (\<lambda>c. c \<noteq> CHR ''_'') token))]
        \<and> (CHR ''_'' \<in> set token \<longrightarrow>
             map version (software (inferSystemDetails banner)) =
               [Some (takeWhile (\<lambda>c. c \<noteq> CHR ''_'')
                        (tl (dropWhile (\<lambda>c. c \<noteq> CHR ''_'') token)))]))
   \<and> (banner = pre @ ''SSH-2.0-OpenSSH_9.6'' @ post
        \<and> (\<forall>i<length pre. match_here ssh_regex (drop i banner) = None)
        \<and> (post = [] \<or> is_space (hd post))
      \<longrightarrow> software (inferSystemDetails banner) =
            [\<lparr>part = ''a'', vendor = ''openbsd'', product = ''openssh'',
              version = Some ''9.6''\<rparr>])"
proof (intro conjI impI)
  show "case js_match ssh_regex banner of
      None \<Rightarrow> software (inferSystemDetails banner) = []
    | Some token \<Rightarrow>
        map (\<lambda>e. (part e, vendor e, product e)) (software (inferSystemDetails banner)) =
          [(''a'', ''openbsd'', toLowerCase (takeWhile (\<lambda>c. c \<noteq> CHR ''_'') token))]
        \<and> (CHR ''_'' \<in> set token \<longrightarrow>
             map version (software (inferSystemDetails banner)) =
               [Some (takeWhile (\<lambda>c. c \<noteq> CHR ''_'')
                        (tl (dropWhile (\<lambda>c. c \<noteq> CHR ''_'') token)))])"
  proof (cases "js_match ssh_regex banner")
    case None
    then show ?thesis by (simp add: software_none)
  next
    case (Some token)
    then show ?thesis using software_some [OF Some] by simp
  qed
next
  assume "banner = pre @ ''SSH-2.0-OpenSSH_9.6'' @ post
        \<and> (\<forall>i<length pre. match_here ssh_regex (drop i banner) = None)
        \<and> (post = [] \<or> is_space (hd post))"
  then show "software (inferSystemDetails banner) =
            [\<lparr>part = ''a'', vendor = ''openbsd'', product = ''openssh'',
              version = Some ''9.6''\<rparr>]"
    using software_openssh [of banner pre post] by blast
qed

text \<open>The banner \<open>hi SSH-2.0-OpenSSH_9.6 Ubuntu\<close> satisfies those conditions.\<close>

theorem inferSystemDetails_software_witness:
  "software (inferSystemDetails ''hi SSH-2.0-OpenSSH_9.6 Ubuntu'') =
     [\<lparr>part = ''a'', vendor = ''openbsd'', product = ''openssh'', version = Some ''9.6''\<rparr>]"
proof -
  have first: "\<forall>i<length ''hi ''.
      match_here ssh_regex (drop i ''hi SSH-2.0-OpenSSH_9.6 Ubuntu'') = None"
    by (simp add: less_Suc_eq regex_defs class_defs)
  have stop: "'' Ubuntu'' = [] \<or> is_space (hd '' Ubuntu'')"
    by (simp add: class_defs)
  have shape: "''hi SSH-2.0-OpenSSH_9.6 Ubuntu'' = ''hi '' @ ''SSH-2.0-OpenSSH_9.6'' @ '' Ubuntu''"
    by simp
  show ?thesis
    by (rule mp [OF inferSystemDetails_software
          [of "''hi SSH-2.0-OpenSSH_9.6 Ubuntu''" "''hi ''" "'' Ubuntu''", THEN conjunct2]])
       (intro conjI shape first stop)
qed

text \<open>
  C2 as stated takes the version to be what follows the first underscore.  For the
  banner of OpenSSH for Windows the token is \<open>OpenSSH_for_Windows_8.1\<close>: the part after
  the first underscore is \<open>for_Windows_8.1\<close>, and the version inferred is \<open>for\<close>.
\<close>

theorem inferSystemDetails_software_counterexample:
  "js_match ssh_regex ''SSH-2.0-OpenSSH_for_Windows_8.1'' = Some ''OpenSSH_for_Windows_8.1''
   \<and> spec_split_first CHR ''_'' ''OpenSSH_for_Windows_8.1'' = (''OpenSSH'', ''for_Windows_8.1'')
   \<and> map version (software (inferSystemDetails ''SSH-2.0-OpenSSH_for_Windows_8.1'')) =
       [Some ''for'']
   \<and> map version (software (inferSystemDetails ''SSH-2.0-OpenSSH_for_Windows_8.1'')) \<noteq>
       [Some (snd (spec_split_first CHR ''_'' ''OpenSSH_for_Windows_8.1''))]"
  by (simp add: infer_defs spec_split_first_def regex_defs class_defs char_defs)

text \<open>
  Claim C3 says that every vendor, product and version field is a string, also when the
  SSH token has no underscore.  On the banner \<open>SSH-2.0-Cisco-1.25\<close> the token
  \<open>Cisco-1.25\<close> has none, and the version of the software entry is \<open>undefined\<close>
  (\<open>None\<close>), not the string \<open>unknown\<close> that the operating-system part falls back to.
\<close>

theorem inferSystemDetails_version_undefined:
  "inferSystemDetails ''SSH-2.0-Cisco-1.25'' =
     \<lparr>operating_system =
        \<lparr>part = ''o'', vendor = ''unknown'', product = ''unknown'', version = Some ''unknown''\<rparr>,
      software =
        [\<lparr>part = ''a'', vendor = ''openbsd'', product = ''cisco-1.25'', version = None\<rparr>]\<rparr>"
  by (simp add: infer_defs regex_defs class_defs char_defs)

section \<open>Properties of the response parser\<close>

lemmas vuln_defs = all_vulnerabilities_def findings_of_def severity_key_def to_finding_def
  toLowerCase_def toLowerCase_char_def code_unit_def

lemma update_present:
  "distinct (map fst bs) \<Longrightarrow> map_of bs k = Some l \<Longrightarrow>
   AList.update k v bs = map (\<lambda>(k', l'). (k', if k' = k then v else l')) bs"
proof (induction bs)
  case Nil
  then show ?case by simp
next
  case (Cons b bs)
  obtain k' l' where b: "b = (k', l')" by (cases b)
  show ?case
  proof (cases "k' = k")
    case True
    have "k \<notin> fst ` set bs" using Cons.prems(1) b True by auto
    then have "map (\<lambda>(k', l'). (k', if k' = k then v else l')) bs = bs"
      by (induction bs) auto
    then show ?thesis using b True by simp
  next
    case False
    then show ?thesis using Cons b by simp
  qed
qed

lemma push_finding_ok:
  assumes "distinct (map fst bs)" and "severity_key v \<in> fst ` set bs"
  shows "push_finding bs v = Inr (map (\<lambda>(k, l). (k, l @ findings_of k [v])) bs)"
proof -
  from assms(2) obtain l where l: "map_of bs (severity_key v) = Some l"
    by (metis domD dom_map_of_conv_image_fst)
  have "map (\<lambda>(k', l'). (k', if k' = severity_key v then l @ [to_finding v] else l')) bs =
        map (\<lambda>(k, l). (k, l @ findings_of k [v])) bs"
  proof (rule map_cong [OF refl])
    fix x assume x: "x \<in> set bs"
    obtain k' l' where [simp]: "x = (k', l')" by (cases x)
    have "k' = severity_key v \<Longrightarrow> l' = l"
      using x l assms(1) by simp
    then show "(case x of (k', l') \<Rightarrow> (k', if k' = severity_key v then l @ [to_finding v] else l')) =
               (case x of (k, l) \<Rightarrow> (k, l @ findings_of k [v]))"
      by (auto simp: findings_of_def)
  qed
  then show ?thesis
    using l update_present [OF assms(1) l] by (simp add: push_finding_def Let_def)
qed

lemma each_vulnerability_ok:
  "distinct (map fst bs) \<Longrightarrow> \<forall>v\<in>set vs. severity_key v \<in> fst ` set bs \<Longrightarrow>
   each_vulnerability bs vs = Inr (map (\<lambda>(k, l). (k, l @ findings_of k vs)) bs)"
proof (induction vs arbitrary: bs)
  case Nil
  then show ?case by (simp add: findings_of_def)
next
  case (Cons v vs)
  let ?bs = "map (\<lambda>(k, l). (k, l @ findings_of k [v])) bs"
  have keys: "map fst ?bs = map fst bs" by (induction bs) auto
  have p: "push_finding bs v = Inr ?bs"
    using Cons.prems by (intro push_finding_ok) auto
  have "each_vulnerability ?bs vs = Inr (map (\<lambda>(k, l). (k, l @ findings_of k vs)) ?bs)"
  proof (rule Cons.IH)
    show "distinct (map fst ?bs)" by (subst keys) (rule Cons.prems(1))
    have "fst ` set ?bs = fst ` set bs" using keys by (metis set_map)
    then show "\<forall>v\<in>set vs. severity_key v \<in> fst ` set ?bs" using Cons.prems(2) by simp
  qed
  moreover have "map (\<lambda>(k, l). (k, l @ findings_of k vs)) ?bs =
                 map (\<lambda>(k, l). (k, l @ findings_of k (v # vs))) bs"
    by (auto simp: findings_of_def)
  ultimately show ?case using p by simp
qed

lemma each_result_ok:
  "distinct (map fst bs) \<Longrightarrow>
   \<forall>v\<in>set (all_vulnerabilities rs). severity_key v \<in> fst ` set bs \<Longrightarrow>
   each_result bs rs = Inr (map (\<lambda>(k, l). (k, l @ findings_of k (all_vulnerabilities rs))) bs)"
proof (induction rs arbitrary: bs)
  case Nil
  then show ?case by (simp add: findings_of_def all_vulnerabilities_def)
next
  case (Cons r rs)
  let ?bs = "map (\<lambda>(k, l). (k, l @ findings_of k (vulnerabilities r))) bs"
  have keys: "map fst ?bs = map fst bs" by (induction bs) auto
  have p: "each_vulnerability bs (vulnerabilities r) = Inr ?bs"
    using Cons.prems by (intro each_vulnerability_ok) (auto simp: all_vulnerabilities_def)
  have "each_result ?bs rs =
        Inr (map (\<lambda>(k, l). (k, l @ findings_of k (all_vulnerabilities rs))) ?bs)"
  proof (rule Cons.IH)
    show "distinct (map fst ?bs)" by (subst keys) (rule Cons.prems(1))
    have "fst ` set ?bs = fst ` set bs" using keys by (metis set_map)
    then show "\<forall>v\<in>set (all_vulnerabilities rs). severity_key v \<in> fst ` set ?bs"
      using Cons.prems(2) by (simp add: all_vulnerabilities_def)
  qed
  moreover have "map (\<lambda>(k, l). (k, l @ findings_of k (all_vulnerabilities rs))) ?bs =
                 map (\<lambda>(k, l). (k, l @ findings_of k (all_vulnerabilities (r # rs)))) bs"
    by (auto simp: findings_of_def all_vulnerabilities_def)
  ultimately show ?case using p by simp
qed

lemma count_buckets:
  "\<forall>v\<in>set vs. severity_key v \<in> {''low'', ''medium'', ''high'', ''critical''} \<Longrightarrow>
   length (findings_of ''low'' vs) + length (findings_of ''medium'' vs) +
   length (findings_of ''high'' vs) + length (findings_of ''critical'' vs) = length vs"
  by (induction vs) (auto simp: findings_of_def)

lemma push_finding_keys:
  "push_finding bs v = Inr bs' \<Longrightarrow> map fst bs' = map fst bs"
  by (auto simp: push_finding_def Let_def update_keys split: option.splits dest: map_of_SomeD)
    (metis fst_conv image_eqI map_of_SomeD)

lemma each_vulnerability_bad:
  "\<exists>v\<in>set vs. severity_key v \<notin> fst ` set bs \<Longrightarrow> each_vulnerability bs vs = Inl TypeError"
proof (induction vs arbitrary: bs)
  case Nil
  then show ?case by simp
next
  case (Cons v vs)
  show ?case
  proof (cases "push_finding bs v")
    case (Inl e)
    then show ?thesis by (cases e) simp
  next
    case (Inr bs')
    then have here: "severity_key v \<in> fst ` set bs"
      by (auto simp: push_finding_def Let_def split: option.splits dest: map_of_SomeD)
        (metis fst_conv image_eqI map_of_SomeD)
    have "fst ` set bs' = fst ` set bs"
      using push_finding_keys [OF Inr] by (metis set_map)
    then have "\<exists>v\<in>set vs. severity_key v \<notin> fst ` set bs'"
      using Cons.prems here by auto
    then show ?thesis using Cons.IH Inr by simp
  qed
qed

lemma each_vulnerability_keys:
  "each_vulnerability bs vs = Inr bs' \<Longrightarrow> map fst bs' = map fst bs"
proof (induction vs arbitrary: bs)
  case Nil
  then show ?case by simp
next
  case (Cons v vs)
  then show ?case
    by (auto split: sum.splits dest: push_finding_keys)
qed

lemma each_result_bad:
  "\<exists>v\<in>set (all_vulnerabilities rs). severity_key v \<notin> fst ` set bs \<Longrightarrow>
   each_result bs rs = Inl TypeError"
proof (induction rs arbitrary: bs)
  case Nil
  then show ?case by (simp add: all_vulnerabilities_def)
next
  case (Cons r rs)
  show ?case
  proof (cases "each_vulnerability bs (vulnerabilities r)")
    case (Inl e)
    then show ?thesis by (cases e) simp
  next
    case (Inr bs')
    then have "\<not> (\<exists>v\<in>set (vulnerabilities r). severity_key v \<notin> fst ` set bs)"
      using each_vulnerability_bad [of "vulnerabilities r" bs] by auto
    moreover have "fst ` set bs' = fst ` set bs"
      using each_vulnerability_keys [OF Inr] by (metis set_map)
    ultimately have "\<exists>v\<in>set (all_vulnerabilities rs). severity_key v \<notin> fst ` set bs'"
      using Cons.prems by (auto simp: all_vulnerabilities_def)
    then show ?thesis using Cons.IH Inr by simp
  qed
qed

text \<open>
  Claim C4.  When every finding of a response has a severity that lower-cases to low,
  medium, high or critical, \<open>parseVulnerabilities\<close> returns the object with exactly the
  keys low, medium, high, critical (each present, also when empty); each bucket holds
  the findings of its severity in response order (result by result, then in nested
  order); and the sizes of the four buckets add up to the number of findings of the
  response, so none is lost and none is duplicated.
\<close>

theorem parseVulnerabilities_round_trip:
  assumes "\<forall>v\<in>set (all_vulnerabilities results).
             severity_key v \<in> {''low'', ''medium'', ''high'', ''critical''}"
  shows "parseVulnerabilities (Object (RList results)) =
           Inr [(''low'', findings_of ''low'' (all_vulnerabilities results)),
                (''medium'', findings_of ''medium'' (all_vulnerabilities results)),
                (''high'', findings_of ''high'' (all_vulnerabilities results)),
                (''critical'', findings_of ''critical'' (all_vulnerabilities results))]
         \<and> length (findings_of ''low'' (all_vulnerabilities results)) +
           length (findings_of ''medium'' (all_vulnerabilities results)) +
           length (findings_of ''high'' (all_vulnerabilities results)) +
           length (findings_of ''critical'' (all_vulnerabilities results)) =
             length (all_vulnerabilities results)"
proof
  have d: "distinct (map fst (empty_buckets :: ('a, 'b) buckets))"
    by (simp add: empty_buckets_def)
  have k: "\<forall>v\<in>set (all_vulnerabilities results).
             severity_key v \<in> fst ` set (empty_buckets :: ('a, 'b) buckets)"
    using assms by (simp add: empty_buckets_def)
  show "parseVulnerabilities (Object (RList results)) =
           Inr [(''low'', findings_of ''low'' (all_vulnerabilities results)),
                (''medium'', findings_of ''medium'' (all_vulnerabilities results)),
                (''high'', findings_of ''high'' (all_vulnerabilities results)),
                (''critical'', findings_of ''critical'' (all_vulnerabilities results))]"
    using each_result_ok [OF d k] by (simp add: empty_buckets_def)
  show "length (findings_of ''low'' (all_vulnerabilities results)) +
        length (findings_of ''medium'' (all_vulnerabilities results)) +
        length (findings_of ''high'' (all_vulnerabilities results)) +
        length (findings_of ''critical'' (all_vulnerabilities results)) =
          length (all_vulnerabilities results)"
    using assms by (rule count_buckets)
qed

text \<open>A response with two results and three findings, of severities HIGH, Low, high.\<close>

theorem parseVulnerabilities_round_trip_witness:
  "parseVulnerabilities (Object (RList
     [\<lparr>vulnerabilities =
         [\<lparr>vulnerability.title = ''CVE-1'', short_description = ''first'',
           vulnerability.ai_score = (), metrics = \<lparr>cvss = \<lparr>score = 7 :: nat, severity = ''HIGH''\<rparr>\<rparr>\<rparr>,
          \<lparr>vulnerability.title = ''CVE-2'', short_description = ''second'',
           vulnerability.ai_score = (), metrics = \<lparr>cvss = \<lparr>score = 2, severity = ''Low''\<rparr>\<rparr>\<rparr>]\<rparr>,
      \<lparr>vulnerabilities =
         [\<lparr>vulnerability.title = ''CVE-3'', short_description = ''third'',
           vulnerability.ai_score = (), metrics = \<lparr>cvss = \<lparr>score = 8, severity = ''high''\<rparr>\<rparr>\<rparr>]\<rparr>])) =
   Inr [(''low'',
         [\<lparr>finding.title = ''CVE-2'', description = ''second'', ai_score = (),
           cvss_score = 2, cvss_severity = ''Low''\<rparr>]),
        (''medium'', []),
        (''high'',
         [\<lparr>finding.title = ''CVE-1'', description = ''first'', ai_score = (),
           cvss_score = 7, cvss_severity = ''HIGH''\<rparr>,
          \<lparr>finding.title = ''CVE-3'', description = ''third'', ai_score = (),
           cvss_score = 8, cvss_severity = ''high''\<rparr>]),
        (''critical'', [])]"
  (is "parseVulnerabilities (Object (RList ?rs)) = _")
proof -
  have h: "\<forall>v\<in>set (all_vulnerabilities ?rs).
             severity_key v \<in> {''low'', ''medium'', ''high'', ''critical''}"
    by (simp add: vuln_defs)
  show ?thesis
    using parseVulnerabilities_round_trip [OF h, THEN conjunct1]
    by (simp add: vuln_defs)
qed

text \<open>
  Claim C5.  When some finding of a response has a severity that does not lower-case to
  low, medium, high or critical, \<open>parseVulnerabilities\<close> throws (a \<open>TypeError\<close>) and
  returns no buckets.
\<close>

theorem parseVulnerabilities_unrecognized_severity:
  assumes "\<exists>v\<in>set (all_vulnerabilities results).
             severity_key v \<notin> {''low'', ''medium'', ''high'', ''critical''}"
  shows "parseVulnerabilities (Object (RList results)) = Inl TypeError"
proof -
  have "\<exists>v\<in>set (all_vulnerabilities results).
          severity_key v \<notin> fst ` set (empty_buckets :: ('a, 'b) buckets)"
    using assms by (simp add: empty_buckets_def)
  then show ?thesis
    by (simp add: each_result_bad)
qed

text \<open>A response whose second finding has the severity NONE.\<close>

theorem parseVulnerabilities_unrecognized_severity_witness:
  "parseVulnerabilities (Object (RList
     [\<lparr>vulnerabilities =
         [\<lparr>vulnerability.title = ''CVE-1'', short_description = ''first'',
           vulnerability.ai_score = (), metrics = \<lparr>cvss = \<lparr>score = 7 :: nat, severity = ''HIGH''\<rparr>\<rparr>\<rparr>,
          \<lparr>vulnerability.title = ''CVE-2'', short_description = ''second'',
           vulnerability.ai_score = (), metrics = \<lparr>cvss = \<lparr>score = 0, severity = ''NONE''\<rparr>\<rparr>\<rparr>]\<rparr>])) =
   Inl TypeError"
  (is "parseVulnerabilities (Object (RList ?rs)) = _")
proof -
  have h: "\<exists>v\<in>set (all_vulnerabilities ?rs).
             severity_key v \<notin> {''low'', ''medium'', ''high'', ''critical''}"
    by (simp add: vuln_defs)
  show ?thesis
    by (rule parseVulnerabilities_unrecognized_severity [OF h])
qed

text \<open>
  Claim C9.  For \<open>null\<close>, for \<open>undefined\<close> and for every object whose \<open>result\<close> property
  is not truthy, \<open>parseVulnerabilities\<close> does not throw and returns the four buckets,
  all empty.
\<close>

theorem parseVulnerabilities_no_result:
  "parseVulnerabilities Null =
     Inr [(''low'', []), (''medium'', []), (''high'', []), (''critical'', [])]
   \<and> parseVulnerabilities Undefined =
     Inr [(''low'', []), (''medium'', []), (''high'', []), (''critical'', [])]
   \<and> (\<not> truthy field \<longrightarrow>
        parseVulnerabilities (Object field) =
          Inr [(''low'', []), (''medium'', []), (''high'', []), (''critical'', [])])"
  by (simp add: empty_buckets_def)

text \<open>The object without a \<open>result\<close> property.\<close>

theorem parseVulnerabilities_no_result_witness:
  "parseVulnerabilities (Object Absent :: (unit, nat) response) =
     Inr [(''low'', []), (''medium'', []), (''high'', []), (''critical'', [])]"
proof -
  have h: "\<not> truthy (Absent :: (unit, nat) result_field)" by simp
  show ?thesis
    by (rule mp [OF parseVulnerabilities_no_result [THEN conjunct2, THEN conjunct2] h])
qed

section \<open>Properties of the resolver and of the socket checks\<close>

lemmas sock_defs = start_def new_socket_def dispatch_def settle_def destroy_def end_socket_def
  print_def

lemma emit_destroyed: "destroyed (sock st) \<Longrightarrow> emit on st evs = st"
  by (induction evs) (auto simp: dispatch_def)

text \<open>
  Claim C10.  Whatever error the resolver fails with (any code, or none),
  \<open>getIpAddresses\<close> returns the empty sequence; and for no outcome of the resolver does
  its promise reject.
\<close>

theorem getIpAddresses_failure:
  "snd (getIpAddresses hostname (Inl error)) = Inr []
   \<and> \<not> isl (snd (getIpAddresses hostname resolve4))"
  by (simp add: getIpAddresses_def split: sum.splits)

lemma testMySQLService_first:
  "settled (testMySQLService host port events) =
     (case find (\<lambda>ev. case ev of Data _ \<Rightarrow> False | SecureConnect _ \<Rightarrow> False | _ \<Rightarrow> True) events of
        None \<Rightarrow> None
      | Some Connect \<Rightarrow> Some False
      | Some _ \<Rightarrow> Some True)"
proof (induction events)
  case Nil
  then show ?case by (simp add: testMySQLService_def sock_defs)
next
  case (Cons ev events)
  show ?case
  proof (cases ev)
    case Connect
    then show ?thesis
      by (simp add: testMySQLService_def emit_destroyed sock_defs)
  next
    case (SecureConnect c)
    then show ?thesis using Cons.IH
      by (simp add: testMySQLService_def sock_defs)
  next
    case (Data d)
    then show ?thesis using Cons.IH
      by (simp add: testMySQLService_def sock_defs)
  next
    case (SockError e)
    then show ?thesis
      by (simp add: testMySQLService_def emit_destroyed sock_defs)
  next
    case Timeout
    then show ?thesis
      by (simp add: testMySQLService_def emit_destroyed sock_defs)
  qed
qed

lemma getHostBanner_Timeout:
  "settled (getHostBanner host port (Timeout # events)) =
     Some (Inl \<lparr>code = None, message = ''Connection timed out''\<rparr>)"
  by (simp add: getHostBanner_def emit_destroyed sock_defs)

lemma getHostBanner_SockError:
  "settled (getHostBanner host port (SockError e # events)) = Some (Inl e)"
  by (simp add: getHostBanner_def emit_destroyed sock_defs)

lemma getHostBanner_Connect_Timeout:
  "settled (getHostBanner host port (Connect # Timeout # events)) =
     Some (Inl \<lparr>code = None, message = ''Connection timed out''\<rparr>)"
  by (simp add: getHostBanner_def emit_destroyed sock_defs)

lemma getHostBanner_Connect_SockError:
  "settled (getHostBanner host port (Connect # SockError e # events)) = Some (Inl e)"
  by (simp add: getHostBanner_def emit_destroyed sock_defs)

lemma getHostBanner_Connect_Data:
  "settled (getHostBanner host port (Connect # Data d # events)) = Some (Inr d)"
  by (simp add: getHostBanner_def emit_destroyed sock_defs)

lemma testMySQLService_banner_True:
  "snd (testMySQLService_banner host port events) = Some True \<longleftrightarrow>
     (\<exists>error. settled (getHostBanner host port events) = Some (Inl error)
        \<and> (includes_str (message error) ''Connection timed out''
            \<or> includes_str (message error) ''ECONNREFUSED''))"
  by (auto simp: testMySQLService_banner_def split: option.splits sum.splits)

lemma testMySQLService_banner_False:
  "snd (testMySQLService_banner host port events) = Some False \<longleftrightarrow>
     (\<exists>banner. settled (getHostBanner host port events) = Some (Inr banner))
     \<or> (\<exists>error. settled (getHostBanner host port events) = Some (Inl error)
          \<and> \<not> includes_str (message error) ''Connection timed out''
          \<and> \<not> includes_str (message error) ''ECONNREFUSED'')"
  by (auto simp: testMySQLService_banner_def split: option.splits sum.splits)

lemma includes_timed_out: "includes_str ''Connection timed out'' ''Connection timed out''"
  by simp

text \<open>
  Claim C6, as amended.  In \<open>src/bin/network.js\<close> the check settles with the first of
  the socket events connect, error and timeout: false (insecure) on connect, true
  (secure) on a timeout and on every socket error, a refusal or not.  In the banner-based
  module the check returns true exactly when \<open>getHostBanner\<close> rejects with an error
  whose message contains \<open>Connection timed out\<close> or \<open>ECONNREFUSED\<close>, and false exactly
  when a banner was read or \<open>getHostBanner\<close> rejected with another error; a connection
  that is established and then times out without a banner counts as secure, a banner
  read after the connect as insecure.
\<close>

theorem testMySQLService_verdict:
  "settled (testMySQLService host port events) =
     (case find (\<lambda>ev. case ev of Data _ \<Rightarrow> False | SecureConnect _ \<Rightarrow> False | _ \<Rightarrow> True) events of
        None \<Rightarrow> None
      | Some Connect \<Rightarrow> Some False
      | Some _ \<Rightarrow> Some True)
   \<and> (snd (testMySQLService_banner host port events) = Some True \<longleftrightarrow>
        (\<exists>error. settled (getHostBanner host port events) = Some (Inl error)
           \<and> (includes_str (message error) ''Connection timed out''
               \<or> includes_str (message error) ''ECONNREFUSED'')))
   \<and> (snd (testMySQLService_banner host port events) = Some False \<longleftrightarrow>
        (\<exists>banner. settled (getHostBanner host port events) = Some (Inr banner))
        \<or> (\<exists>error. settled (getHostBanner host port events) = Some (Inl error)
             \<and> \<not> includes_str (message error) ''Connection timed out''
             \<and> \<not> includes_str (message error) ''ECONNREFUSED''))
   \<and> snd (testMySQLService_banner host port (Connect # Timeout # events)) = Some True
   \<and> snd (testMySQLService_banner host port (Connect # Data banner # events)) = Some False"
proof (intro conjI)
  show "snd (testMySQLService_banner host port (Connect # Timeout # events)) = Some True"
    using includes_timed_out
    by (simp only: testMySQLService_banner_True getHostBanner_Connect_Timeout) simp
  show "snd (testMySQLService_banner host port (Connect # Data banner # events)) = Some False"
    by (simp only: testMySQLService_banner_False getHostBanner_Connect_Data) simp
qed (rule testMySQLService_first testMySQLService_banner_True testMySQLService_banner_False)+

text \<open>A refused connection, seen by the banner-based check.\<close>

theorem testMySQLService_verdict_witness:
  "snd (testMySQLService_banner ''192.0.2.1'' 3306
          [SockError \<lparr>code = Some ''ECONNREFUSED'',
                      message = ''connect ECONNREFUSED 192.0.2.1:3306''\<rparr>]) = Some True"
  (is "snd (testMySQLService_banner ?h ?p [SockError ?e]) = _")
proof -
  have "settled (getHostBanner ?h ?p [SockError ?e]) = Some (Inl ?e)
        \<and> (includes_str (message ?e) ''Connection timed out''
            \<or> includes_str (message ?e) ''ECONNREFUSED'')"
    by (simp add: getHostBanner_def sock_defs)
  then show ?thesis
    using testMySQLService_verdict [of ?h ?p "[SockError ?e]", THEN conjunct2, THEN conjunct1]
    by blast
qed

text \<open>
  C6 as stated fails in both modules: in \<open>src/bin/network.js\<close> an unreachable host (an
  error that is neither a refusal nor a timeout) is reported secure, and in the
  banner-based module a successful connect that stays silent until the timeout is
  reported secure.
\<close>

theorem testMySQLService_verdict_counterexample:
  "settled (testMySQLService ''192.0.2.1'' 3306
      [SockError \<lparr>code = Some ''EHOSTUNREACH'',
                  message = ''connect EHOSTUNREACH 192.0.2.1:3306''\<rparr>]) = Some True
   \<and> snd (testMySQLService_banner ''192.0.2.1'' 3306 [Connect, Timeout]) = Some True"
  by (simp add: testMySQLService_def testMySQLService_banner_def getHostBanner_def sock_defs)

lemma testSelfSignedCertificate_on_timeout:
  "timeout_ms (sock (dispatch (testSelfSignedCertificate_on host port) st ev)) =
     timeout_ms (sock st)"
  by (cases ev) (auto simp: sock_defs split: option.splits)

lemma emit_testSelfSignedCertificate_timeout:
  "timeout_ms (sock (emit (testSelfSignedCertificate_on host port) st evs)) =
     timeout_ms (sock st)"
  by (induction evs arbitrary: st) (simp_all add: testSelfSignedCertificate_on_timeout)

text \<open>
  Claim C7 says that every socket probe, the certificate check included, gives up with a
  timeout.  \<open>testSelfSignedCertificate\<close> sets no timeout on its socket and has no
  \<open>timeout\<close> listener: whatever happens its socket has no timeout, and against a
  silent peer the socket stays open and the promise stays pending, where
  \<open>getHostBanner\<close> rejects with \<open>Connection timed out\<close>.
\<close>

theorem testSelfSignedCertificate_no_timeout:
  "timeout_ms (sock (testSelfSignedCertificate host port events)) = None
   \<and> settled (testSelfSignedCertificate ''192.0.2.1'' 443 [Timeout]) = None
   \<and> \<not> destroyed (sock (testSelfSignedCertificate ''192.0.2.1'' 443 [Timeout]))
   \<and> settled (getHostBanner ''192.0.2.1'' 443 [Timeout]) =
       Some (Inl \<lparr>code = None, message = ''Connection timed out''\<rparr>)"
proof (intro conjI)
  show "timeout_ms (sock (testSelfSignedCertificate host port events)) = None"
    by (simp add: testSelfSignedCertificate_def emit_testSelfSignedCertificate_timeout
        start_def new_socket_def)
qed (simp_all add: testSelfSignedCertificate_def getHostBanner_def sock_defs)

lemma banner_checks_other_error:
  assumes "\<not> includes_str (message error) ''Connection timed out''"
    and "\<not> includes_str (message error) ''ECONNREFUSED''"
    and "settled (getHostBanner host port events) = Some (Inl error)"
  shows "testMySQLService_banner host port events =
           ([Console_error [S ''Error connecting to '', S host, S '':'', N port, S '': '',
                            S (message error)]], Some False)"
    and "testEmailServiceWithoutTLS_banner host port events =
           ([Console_error [S ''Error connecting to '', S host, S '':'', N port, S '': '',
                            S (message error)]], Some False)"
  using assms by (simp_all add: testMySQLService_banner_def testEmailServiceWithoutTLS_banner_def)

lemma tls_settled_on:
  "settled st = Some v \<Longrightarrow>
   settled (dispatch (testSelfSignedCertificate_on host port) st ev) = Some v"
  by (cases ev) (auto simp: sock_defs)

lemma tls_settled_emit:
  "settled st = Some v \<Longrightarrow>
   settled (emit (testSelfSignedCertificate_on host port) st evs) = Some v"
  by (induction evs arbitrary: st) (simp_all add: tls_settled_on)

lemma tls_self_signed:
  "settled (testSelfSignedCertificate host port
      (SecureConnect \<lparr>issuer_CN = Some cn, subject_CN = cn\<rparr> # rest)) = Some False"
  by (simp add: testSelfSignedCertificate_def, rule tls_settled_emit) (simp add: sock_defs)

lemma tls_error:
  assumes "events \<in> {SockError error # rest, Connect # SockError error # rest}"
  shows "settled (testSelfSignedCertificate host port events) = Some False"
    and "console (testSelfSignedCertificate host port events) =
         [Console_error [S ''Error connecting to '', S host, S '':'', N port, S '': '',
                         S (message error)]]"
  using assms by (auto simp: testSelfSignedCertificate_def emit_destroyed sock_defs)

lemma ssh_banner_rejected:
  "settled (getHostBanner host port events) = Some (Inl error) \<Longrightarrow>
   testOpenSSHVersion_banner host port events world =
     ([Console_error [S ''Error processing OpenSSH version for '', S host, S '':'', N port,
                      S '': '', S (message error)]], Some ())"
  by (simp add: testOpenSSHVersion_banner_def processing_error_def)

lemma own_socket_error_first:
  "settled (testMySQLService host port (SockError error # rest)) = Some True"
  "console (testMySQLService host port (SockError error # rest)) =
     [Console_log [S ''MySQL service is not exposed on '', S host, S '':'', N port]]"
  "testMySQLService host port (SockError error # rest) =
     testMySQLService host port (Timeout # rest)"
  "testEmailServiceWithoutTLS host port (SockError error # rest) =
     testEmailServiceWithoutTLS host port (Timeout # rest)"
  "testEmailServiceWithoutTLS host port (Connect # SockError error # rest) =
     testEmailServiceWithoutTLS host port (Connect # Timeout # rest)"
  "testOpenSSHVersion host port (SockError error # rest) =
     testOpenSSHVersion host port (Timeout # rest)"
  "testOpenSSHVersion host port (Connect # SockError error # rest) =
     testOpenSSHVersion host port (Connect # Timeout # rest)"
  by (simp_all add: testMySQLService_def testEmailServiceWithoutTLS_def testOpenSSHVersion_def
      emit_destroyed sock_defs)

lemma own_socket_timeout_first:
  "settled (testMySQLService host port (Timeout # rest)) = Some True"
  "console (testMySQLService host port (Timeout # rest)) =
     [Console_log [S ''MySQL service is not exposed on '', S host, S '':'', N port]]"
  by (simp_all add: testMySQLService_def emit_destroyed sock_defs)

lemma own_socket_error:
  assumes "events \<in> {SockError error # rest, Connect # SockError error # rest}"
  shows "settled (testEmailServiceWithoutTLS host port events) = Some True"
    and "console (testEmailServiceWithoutTLS host port events) =
         [Console_log [S ''Email service is not exposed on '', S host, S '':'', N port]]"
    and "settled (testOpenSSHVersion host port events) = Some True"
    and "console (testOpenSSHVersion host port events) =
         [Console_log [S ''SSH service is not exposed on '', S host, S '':'', N port]]"
  using assms
  by (auto simp: testEmailServiceWithoutTLS_def testOpenSSHVersion_def emit_destroyed sock_defs)

lemma banner_insecure_values:
  "snd (testMySQLService_banner host port (Connect # Data (c # banner) # rest)) = Some False"
  "snd (testEmailServiceWithoutTLS_banner host port (Connect # Data ''220 mail ESMTP'' # rest)) =
     Some False"
  "snd (testOpenSSHVersion_banner host port (Timeout # rest) world) = Some ()"
  by (simp_all add: testMySQLService_banner_def testEmailServiceWithoutTLS_banner_def
      testOpenSSHVersion_banner_def getHostBanner_Connect_Data getHostBanner_Timeout)

text \<open>
  Claim C8, as amended.  For a socket error that is neither a timeout nor a refusal,
  raised before or after the connect, no service check has an outcome of its own.  In
  the banner-based module the database and mail checks print the error with
  \<open>console.error\<close> and return false, the value of their insecure outcome; the SSH check
  prints the error with \<open>console.error\<close> and resolves with \<open>undefined\<close>, as it does on
  a timeout.  The certificate check (the same in both modules) prints the error with
  \<open>console.error\<close> and resolves with false, the value of its self-signed outcome.  In
  \<open>src/bin/network.js\<close> the database check, for an error before the connect, and the
  mail and SSH checks, for an error before or after it, print that the service is not
  exposed and resolve with true, and leave exactly what a timeout leaves.  In every
  case the promise of the check resolves.
\<close>

theorem connection_error_outcome:
  "\<not> includes_str (message error) ''Connection timed out''
   \<and> \<not> includes_str (message error) ''ECONNREFUSED''
   \<and> events \<in> {SockError error # rest, Connect # SockError error # rest}
   \<longrightarrow> testMySQLService_banner host port events =
         ([Console_error [S ''Error connecting to '', S host, S '':'', N port, S '': '',
                          S (message error)]], Some False)
       \<and> snd (testMySQLService_banner host port events) =
         snd (testMySQLService_banner host port (Connect # Data (c # banner) # rest))
       \<and> testEmailServiceWithoutTLS_banner host port events =
         ([Console_error [S ''Error connecting to '', S host, S '':'', N port, S '': '',
                          S (message error)]], Some False)
       \<and> snd (testEmailServiceWithoutTLS_banner host port events) =
         snd (testEmailServiceWithoutTLS_banner host port
                (Connect # Data ''220 mail ESMTP'' # rest))
       \<and> testOpenSSHVersion_banner host port events world =
         ([Console_error [S ''Error processing OpenSSH version for '', S host, S '':'', N port,
                          S '': '', S (message error)]], Some ())
       \<and> snd (testOpenSSHVersion_banner host port events world) =
         snd (testOpenSSHVersion_banner host port (Timeout # rest) world)
       \<and> settled (testSelfSignedCertificate host port events) = Some False
       \<and> console (testSelfSignedCertificate host port events) =
         [Console_error [S ''Error connecting to '', S host, S '':'', N port, S '': '',
                         S (message error)]]
       \<and> settled (testSelfSignedCertificate host port events) =
         settled (testSelfSignedCertificate host port
                    (SecureConnect \<lparr>issuer_CN = Some cn, subject_CN = cn\<rparr> # rest))
       \<and> settled (testMySQLService host port (SockError error # rest)) = Some True
       \<and> console (testMySQLService host port (SockError error # rest)) =
         [Console_log [S ''MySQL service is not exposed on '', S host, S '':'', N port]]
       \<and> testMySQLService host port (SockError error # rest) =
         testMySQLService host port (Timeout # rest)
       \<and> settled (testEmailServiceWithoutTLS host port events) = Some True
       \<and> console (testEmailServiceWithoutTLS host port events) =
         [Console_log [S ''Email service is not exposed on '', S host, S '':'', N port]]
       \<and> testEmailServiceWithoutTLS host port (SockError error # rest) =
         testEmailServiceWithoutTLS host port (Timeout # rest)
       \<and> testEmailServiceWithoutTLS host port (Connect # SockError error # rest) =
         testEmailServiceWithoutTLS host port (Connect # Timeout # rest)
       \<and> settled (testOpenSSHVersion host port events) = Some True
       \<and> console (testOpenSSHVersion host port events) =
         [Console_log [S ''SSH service is not exposed on '', S host, S '':'', N port]]
       \<and> testOpenSSHVersion host port (SockError error # rest) =
         testOpenSSHVersion host port (Timeout # rest)
       \<and> testOpenSSHVersion host port (Connect # SockError error # rest) =
         testOpenSSHVersion host port (Connect # Timeout # rest)"
proof (intro impI, elim conjE)
  assume a: "\<not> includes_str (message error) ''Connection timed out''"
    and b: "\<not> includes_str (message error) ''ECONNREFUSED''"
    and ev: "events \<in> {SockError error # rest, Connect # SockError error # rest}"
  from ev have s: "settled (getHostBanner host port events) = Some (Inl error)"
    by (auto simp: getHostBanner_SockError getHostBanner_Connect_SockError)
  note banner = banner_checks_other_error [OF a b s]
  note ssh = ssh_banner_rejected [OF s, of world]
  note tls = tls_error [OF ev, of host port]
  note own = own_socket_error [OF ev, of host port]
  show "testMySQLService_banner host port events =
         ([Console_error [S ''Error connecting to '', S host, S '':'', N port, S '': '',
                          S (message error)]], Some False)
       \<and> snd (testMySQLService_banner host port events) =
         snd (testMySQLService_banner host port (Connect # Data (c # banner) # rest))
       \<and> testEmailServiceWithoutTLS_banner host port events =
         ([Console_error [S ''Error connecting to '', S host, S '':'', N port, S '': '',
                          S (message error)]], Some False)
       \<and> snd (testEmailServiceWithoutTLS_banner host port events) =
         snd (testEmailServiceWithoutTLS_banner host port
                (Connect # Data ''220 mail ESMTP'' # rest))
       \<and> testOpenSSHVersion_banner host port events world =
         ([Console_error [S ''Error processing OpenSSH version for '', S host, S '':'', N port,
                          S '': '', S (message error)]], Some ())
       \<and> snd (testOpenSSHVersion_banner host port events world) =
         snd (testOpenSSHVersion_banner host port (Timeout # rest) world)
       \<and> settled (testSelfSignedCertificate host port events) = Some False
       \<and> console (testSelfSignedCertificate host port events) =
         [Console_error [S ''Error connecting to '', S host, S '':'', N port, S '': '',
                         S (message error)]]
       \<and> settled (testSelfSignedCertificate host port events) =
         settled (testSelfSignedCertificate host port
                    (SecureConnect \<lparr>issuer_CN = Some cn, subject_CN = cn\<rparr> # rest))
       \<and> settled (testMySQLService host port (SockError error # rest)) = Some True
       \<and> console (testMySQLService host port (SockError error # rest)) =
         [Console_log [S ''MySQL service is not exposed on '', S host, S '':'', N port]]
       \<and> testMySQLService host port (SockError error # rest) =
         testMySQLService host port (Timeout # rest)
       \<and> settled (testEmailServiceWithoutTLS host port events) = Some True
       \<and> console (testEmailServiceWithoutTLS host port events) =
         [Console_log [S ''Email service is not exposed on '', S host, S '':'', N port]]
       \<and> testEmailServiceWithoutTLS host port (SockError error # rest) =
         testEmailServiceWithoutTLS host port (Timeout # rest)
       \<and> testEmailServiceWithoutTLS host port (Connect # SockError error # rest) =
         testEmailServiceWithoutTLS host port (Connect # Timeout # rest)
       \<and> settled (testOpenSSHVersion host port events) = Some True
       \<and> console (testOpenSSHVersion host port events) =
         [Console_log [S ''SSH service is not exposed on '', S host, S '':'', N port]]
       \<and> testOpenSSHVersion host port (SockError error # rest) =
         testOpenSSHVersion host port (Timeout # rest)
       \<and> testOpenSSHVersion host port (Connect # SockError error # rest) =
         testOpenSSHVersion host port (Connect # Timeout # rest)"
    by (intro conjI)
       (simp_all only: banner ssh tls own own_socket_error_first own_socket_timeout_first
          banner_insecure_values tls_self_signed snd_conv)
qed

text \<open>An unreachable host, seen by the banner-based database check.\<close>

theorem connection_error_outcome_witness:
  "testMySQLService_banner ''192.0.2.1'' 3306
     [SockError \<lparr>code = Some ''EHOSTUNREACH'',
                 message = ''connect EHOSTUNREACH 192.0.2.1:3306''\<rparr>] =
     ([Console_error [S ''Error connecting to '', S ''192.0.2.1'', S '':'', N 3306, S '': '',
                      S ''connect EHOSTUNREACH 192.0.2.1:3306'']], Some False)"
  (is "testMySQLService_banner ?h ?p [SockError ?e] = _")
proof -
  have h: "\<not> includes_str (message ?e) ''Connection timed out''
     \<and> \<not> includes_str (message ?e) ''ECONNREFUSED''
     \<and> [SockError ?e] \<in> {SockError ?e # [], Connect # SockError ?e # []}"
    by simp
  from connection_error_outcome [of ?e "[SockError ?e]" "[]" ?h ?p, THEN mp, OF h, THEN conjunct1]
  show ?thesis by simp
qed

text \<open>
  C8 as stated asks for an outcome distinct from secure and insecure.  For an unreachable
  host the banner-based database check returns false, as it does for an exposed service,
  and the check of \<open>src/bin/network.js\<close> resolves with true and leaves the same console
  output and socket as a timeout does.
\<close>

theorem connection_error_outcome_counterexample:
  "snd (testMySQLService_banner ''192.0.2.1'' 3306
          [SockError \<lparr>code = Some ''EHOSTUNREACH'',
                      message = ''connect EHOSTUNREACH 192.0.2.1:3306''\<rparr>]) = Some False
   \<and> snd (testMySQLService_banner ''192.0.2.1'' 3306 [Connect, Data ''5.7.40'']) = Some False
   \<and> settled (testMySQLService ''192.0.2.1'' 3306
          [SockError \<lparr>code = Some ''EHOSTUNREACH'',
                      message = ''connect EHOSTUNREACH 192.0.2.1:3306''\<rparr>]) = Some True
   \<and> settled (testMySQLService ''192.0.2.1'' 3306 [Timeout]) = Some True
   \<and> testMySQLService ''192.0.2.1'' 3306
          [SockError \<lparr>code = Some ''EHOSTUNREACH'',
                      message = ''connect EHOSTUNREACH 192.0.2.1:3306''\<rparr>] =
       testMySQLService ''192.0.2.1'' 3306 [Timeout]"
  by (simp add: testMySQLService_def testMySQLService_banner_def getHostBanner_def sock_defs)

end
